theory Spec2Isabelle
  imports Complex_Main
begin

section \<open>Python strings\<close>

text \<open>
  A Python \<open>str\<close> is modelled as a list of characters, one \<open>char\<close> per code point
  (code points 0 to 255), and \<open>bytes\<close> as a list of 8-bit characters; \<open>len\<close> is
  \<open>length\<close>. Python integers are \<open>int\<close>.
\<close>

type_synonym bytes = string

text \<open>\<open>str.lower\<close> on the code points 0 to 255: A-Z and the Latin-1 capitals move by 32.\<close>

definition lower_char :: "char \<Rightarrow> char" where
  "lower_char c =
     (let n = (of_char c :: nat)
      in if (65 \<le> n \<and> n \<le> 90) \<or> (192 \<le> n \<and> n \<le> 222 \<and> n \<noteq> 215)
         then char_of (n + 32) else c)"

definition lower :: "string \<Rightarrow> string" where
  "lower s = map lower_char s"

text \<open>\<open>s.startswith(p)\<close>, \<open>s.endswith(p)\<close> and \<open>p in s\<close>.\<close>

definition startswith :: "string \<Rightarrow> string \<Rightarrow> bool" where
  "startswith s p = (take (length p) s = p)"

definition endswith :: "string \<Rightarrow> string \<Rightarrow> bool" where
  "endswith s p = (length p \<le> length s \<and> drop (length s - length p) s = p)"

primrec str_in :: "string \<Rightarrow> string \<Rightarrow> bool" where
  "str_in p [] = (p = [])"
| "str_in p (c # cs) = (startswith (c # cs) p \<or> str_in p cs)"

text \<open>
  The slice \<open>xs[a:b]\<close>: a negative bound counts from the end, and both bounds are
  clamped to the list; an empty or inverted window gives the empty list.
\<close>

definition clamp_index :: "nat \<Rightarrow> int \<Rightarrow> nat" where
  "clamp_index n i = (if i < 0 then nat (max 0 (int n + i)) else min n (nat i))"

definition slice :: "'a list \<Rightarrow> int \<Rightarrow> int \<Rightarrow> 'a list" where
  "slice xs a b =
     (let lo = clamp_index (length xs) a; hi = clamp_index (length xs) b
      in take (hi - lo) (drop lo xs))"

text \<open>\<open>str(n)\<close> for an integer, as an f-string renders it.\<close>

fun str_nat :: "nat \<Rightarrow> string" where
  "str_nat n =
     (if n < 10 then [''0123456789'' ! n]
      else str_nat (n div 10) @ [''0123456789'' ! (n mod 10)])"

declare str_nat.simps [simp del]

definition str_int :: "int \<Rightarrow> string" where
  "str_int i = (if i < 0 then CHR ''-'' # str_nat (nat (- i)) else str_nat (nat i))"

text \<open>
  \<open>str.splitlines\<close>, \<open>str.strip\<close> and \<open>sep.join\<close>. The line boundaries and the
  whitespace are those of Python among the code points 0 to 255; \<open>\r\n\<close> is one
  boundary, and a final line break opens no further line.
\<close>

definition is_linebreak :: "char \<Rightarrow> bool" where
  "is_linebreak c = ((of_char c :: nat) \<in> {10, 11, 12, 13, 28, 29, 30, 133})"

definition is_space :: "char \<Rightarrow> bool" where
  "is_space c = ((of_char c :: nat) \<in> {9, 10, 11, 12, 13, 28, 29, 30, 31, 32, 133, 160})"

fun splitlines_from :: "string \<Rightarrow> string \<Rightarrow> string list" where
  "splitlines_from cur [] = (if cur = [] then [] else [cur])"
| "splitlines_from cur [c] = (if is_linebreak c then [cur] else [cur @ [c]])"
| "splitlines_from cur (c # d # cs) =
     (if c = CHR 0x0D \<and> d = CHR 0x0A then cur # splitlines_from [] cs
      else if is_linebreak c then cur # splitlines_from [] (d # cs)
      else splitlines_from (cur @ [c]) (d # cs))"

definition splitlines :: "string \<Rightarrow> string list" where
  "splitlines s = splitlines_from [] s"

definition strip :: "string \<Rightarrow> string" where
  "strip s = rev (dropWhile is_space (rev (dropWhile is_space s)))"

fun join :: "string \<Rightarrow> string list \<Rightarrow> string" where
  "join sep [] = []"
| "join sep [x] = x"
| "join sep (x # y # ys) = x @ sep @ join sep (y # ys)"


section \<open>Errors, responses and the external collaborators\<close>

text \<open>
  Every \<open>raise ValueError(msg)\<close> of the server is \<open>ValueError msg\<close>. An exception that
  escapes the document converter is \<open>ConversionError\<close>; the server does not catch it.
\<close>

datatype error = ValueError string | ConversionError string

text \<open>What the server reads of an httpx response.\<close>

record response =
  status_code :: int
  resp_text :: string
  resp_content :: bytes
  content_type_header :: "string option"

record url_parts =
  scheme :: string
  netloc :: string
  path :: string
  params :: string
  query :: string
  fragment :: string

text \<open>
  The libraries and the network the server calls are parameters of the model:
  \<^item> \<open>urlparse\<close>, \<open>urlunparse\<close>: \<open>urllib.parse\<close>;
  \<^item> \<open>http_get proxy url user_agent\<close>: the GET of an \<open>AsyncClient\<close> built with that
    proxy, \<open>Inl\<close> the \<open>repr\<close> of the \<open>HTTPError\<close> it raised;
  \<^item> \<open>can_fetch body url user_agent\<close>: \<open>Protego.parse(body).can_fetch(url, user_agent)\<close>;
  \<^item> \<open>md_convert data\<close>: the \<open>text_content\<close> \<open>MarkItDown().convert\<close> gives for a
    temporary file holding \<open>data\<close>, \<open>Inl\<close> when it raises;
  \<^item> \<open>readable_content html\<close>: \<open>ret["content"]\<close> of readabilipy's \<open>simple_json\<close>;
  \<^item> \<open>markdownify\<close>: \<open>markdownify.markdownify\<close> with ATX headings.
\<close>

record world =
  urlparse :: "string \<Rightarrow> url_parts"
  urlunparse :: "url_parts \<Rightarrow> string"
  http_get :: "string option \<Rightarrow> string \<Rightarrow> string \<Rightarrow> string + response"
  can_fetch :: "string \<Rightarrow> string \<Rightarrow> string \<Rightarrow> bool"
  md_convert :: "bytes \<Rightarrow> string + string"
  readable_content :: "string \<Rightarrow> string option"
  markdownify :: "string \<Rightarrow> string"

text \<open>
  The calls that leave the process, in the order the server makes them: the GET of
  robots.txt, the parse of its body, the GET of the page, the document conversion.
\<close>

datatype event =
  RobotsGet string string
| RobotsParse string
| PageGet string string
| Convert bytes


section \<open>The PDF cache\<close>

text \<open>
  Modelled from the spec: \<open>cachetools.TTLCache\<close>, the class of \<open>_pdf_cache\<close>, is a
  library outside the source tree; the source fixes only its parameters
  (\<open>maxsize=20\<close>, \<open>ttl=600\<close>) and the three operations used on it (\<open>in\<close>, \<open>[]\<close>
  and \<open>[] =\<close>). Following the spec, the cache is a bounded map in insertion order
  (the oldest entry first), each entry with its expiry time; a read skips an
  expired entry and changes nothing; a store replaces the entry of its key,
  evicts the oldest entry when the cache is full, and appends the new entry.
  Time is the reading of the cache's clock, one reading per call.
\<close>

record pdf_cache_entry =
  entry_key :: string
  entry_value :: string
  entry_expires :: real

type_synonym ttl_cache = "pdf_cache_entry list"

definition maxsize :: nat where
  "maxsize = 20"

definition ttl :: real where
  "ttl = 600"

text \<open>
  Modelled from the spec: the read of the cache (\<open>url in _pdf_cache\<close>, then
  \<open>_pdf_cache[url]\<close>), a lazy expiry check that skips an expired entry and leaves
  the cache as it is.
\<close>

definition cache_lookup :: "ttl_cache \<Rightarrow> real \<Rightarrow> string \<Rightarrow> string option" where
  "cache_lookup c now k =
     (case find (\<lambda>e. entry_key e = k) c of
        None \<Rightarrow> None
      | Some e \<Rightarrow> if now < entry_expires e then Some (entry_value e) else None)"

text \<open>
  Modelled from the spec: the store \<open>_pdf_cache[url] = value\<close>, which gives the entry
  its expiry time \<open>now + ttl\<close> and, once the cache is full, evicts the entry
  inserted longest ago.
\<close>

definition cache_store :: "ttl_cache \<Rightarrow> real \<Rightarrow> string \<Rightarrow> string \<Rightarrow> ttl_cache" where
  "cache_store c now k v =
     (let others = filter (\<lambda>e. entry_key e \<noteq> k) c;
          kept = drop (Suc (length others) - maxsize) others
      in kept @ [\<lparr>entry_key = k, entry_value = v, entry_expires = now + ttl\<rparr>])"


section \<open>The server\<close>

text \<open>
  The module's globals (\<open>_custom_user_agent\<close>, \<open>_ignore_robots_txt\<close>, \<open>_proxy_url\<close>,
  \<open>_pdf_cache\<close>) and the log of the external calls made so far.
\<close>

record server =
  custom_user_agent :: "string option"
  ignore_robots_txt :: bool
  proxy_url :: "string option"
  pdf_cache :: ttl_cache
  trace :: "event list"

definition initial_server :: server where
  "initial_server =
     \<lparr>custom_user_agent = None, ignore_robots_txt = True, proxy_url = None,
      pdf_cache = [], trace = []\<rparr>"

definition DEFAULT_USER_AGENT_AUTONOMOUS :: string where
  "DEFAULT_USER_AGENT_AUTONOMOUS =
     ''ModelContextProtocol/1.0 (Autonomous; +https://github.com/modelcontextprotocol/servers)''"

definition log_event :: "event \<Rightarrow> server \<Rightarrow> server" where
  "log_event e s = s\<lparr>trace := trace s @ [e]\<rparr>"

subsection \<open>extract_content_from_html\<close>

definition extract_content_from_html :: "world \<Rightarrow> string \<Rightarrow> string" where
  "extract_content_from_html w html =
     (case readable_content w html of
        None \<Rightarrow> ''<error>Page failed to be simplified from HTML</error>''
      | Some c \<Rightarrow>
          if c = [] then ''<error>Page failed to be simplified from HTML</error>''
          else markdownify w c)"

subsection \<open>get_robots_txt_url and check_may_autonomously_fetch_url\<close>

definition get_robots_txt_url :: "world \<Rightarrow> string \<Rightarrow> string" where
  "get_robots_txt_url w url =
     (let parsed = urlparse w url
      in urlunparse w
           \<lparr>scheme = scheme parsed, netloc = netloc parsed, path = ''/robots.txt'',
            params = [], query = [], fragment = []\<rparr>)"

definition robots_status_message :: "string \<Rightarrow> int \<Rightarrow> string" where
  "robots_status_message robot_txt_url status =
     ''When fetching robots.txt ('' @ robot_txt_url @ ''), received status ''
     @ str_int status
     @ '' so assuming that autonomous fetching is not allowed, the user can try manually fetching by using the fetch prompt''"

definition robots_denied_message :: "string \<Rightarrow> string \<Rightarrow> string \<Rightarrow> string \<Rightarrow> string" where
  "robots_denied_message robot_txt_url user_agent url robot_txt =
     ''The sites robots.txt ('' @ robot_txt_url
     @ ''), specifies that autonomous fetching of this page is not allowed, ''
     @ ''<useragent>'' @ user_agent @ ''</useragent>'' @ [CHR 0x0A]
     @ ''<url>'' @ url @ ''</url>''
     @ ''<robots>'' @ [CHR 0x0A] @ robot_txt @ [CHR 0x0A] @ ''</robots>'' @ [CHR 0x0A]
     @ ''The assistant must let the user know that it failed to view the page. The assistant may provide further guidance based on the above information.''
     @ [CHR 0x0A]
     @ ''The assistant can tell the user that they can try manually fetching the page by using the fetch prompt within their UI.''"

definition process_robot_txt :: "string \<Rightarrow> string" where
  "process_robot_txt robot_txt =
     join [CHR 0x0A]
       (filter (\<lambda>line. \<not> startswith (strip line) ''#'') (splitlines robot_txt))"

definition check_may_autonomously_fetch_url ::
  "world \<Rightarrow> string \<Rightarrow> string \<Rightarrow> string option \<Rightarrow> server \<Rightarrow> (error + unit) \<times> server" where
  "check_may_autonomously_fetch_url w url user_agent proxy s =
     (let robot_txt_url = get_robots_txt_url w url;
          s1 = log_event (RobotsGet robot_txt_url user_agent) s
      in case http_get w proxy robot_txt_url user_agent of
           Inl e \<Rightarrow>
             (Inl (ValueError (''Failed to fetch robots.txt '' @ robot_txt_url
                               @ '' due to a connection issue'')), s1)
         | Inr response \<Rightarrow>
             if status_code response = 401 \<or> status_code response = 403
             then (Inl (ValueError (robots_status_message robot_txt_url (status_code response))), s1)
             else if 400 \<le> status_code response \<and> status_code response < 500
             then (Inr (), s1)
             else
               (let robot_txt = resp_text response;
                    processed_robot_txt = process_robot_txt robot_txt;
                    s2 = log_event (RobotsParse processed_robot_txt) s1
                in if \<not> can_fetch w processed_robot_txt url user_agent
                   then (Inl (ValueError
                                (robots_denied_message robot_txt_url user_agent url robot_txt)), s2)
                   else (Inr (), s2)))"

subsection \<open>extract_content_from_pdf\<close>

text \<open>
  \<open>url in _pdf_cache\<close> followed by \<open>_pdf_cache[url]\<close> is one \<open>cache_lookup\<close>. On a
  miss the converter runs, \<open>text[:10_000_000]\<close> is stored, and \<open>text\<close> is returned.
\<close>

definition extract_content_from_pdf ::
  "world \<Rightarrow> real \<Rightarrow> bytes \<Rightarrow> string \<Rightarrow> server \<Rightarrow> (error + string) \<times> server" where
  "extract_content_from_pdf w now data url s =
     (case cache_lookup (pdf_cache s) now url of
        Some cached \<Rightarrow> (Inr cached, s)
      | None \<Rightarrow>
          (let s1 = log_event (Convert data) s
           in case md_convert w data of
                Inl e \<Rightarrow> (Inl (ConversionError e), s1)
              | Inr text \<Rightarrow>
                  (Inr text,
                   s1\<lparr>pdf_cache := cache_store (pdf_cache s1) now url (take 10000000 text)\<rparr>)))"

subsection \<open>fetch_url\<close>

definition is_pdf :: "string \<Rightarrow> string \<Rightarrow> bytes \<Rightarrow> bool" where
  "is_pdf content_type url raw_bytes =
     (str_in ''application/pdf'' (lower content_type)
      \<or> endswith (lower url) ''.pdf''
      \<or> startswith raw_bytes ''%PDF-'')"

definition is_page_html :: "string \<Rightarrow> string \<Rightarrow> bool" where
  "is_page_html page_raw content_type =
     (str_in ''<html'' (take 100 page_raw) \<or> str_in ''text/html'' content_type
      \<or> content_type = [])"

definition fetch_url ::
  "world \<Rightarrow> real \<Rightarrow> string \<Rightarrow> string \<Rightarrow> bool \<Rightarrow> string option \<Rightarrow> server
     \<Rightarrow> (error + string \<times> string) \<times> server" where
  "fetch_url w now url user_agent force_raw proxy s =
     (let s1 = log_event (PageGet url user_agent) s
      in case http_get w proxy url user_agent of
           Inl e \<Rightarrow> (Inl (ValueError (''Failed to fetch '' @ url @ '': '' @ e)), s1)
         | Inr response \<Rightarrow>
             if status_code response \<ge> 400
             then (Inl (ValueError (''Failed to fetch '' @ url @ '' - status code ''
                                    @ str_int (status_code response))), s1)
             else
               (let page_raw = resp_text response;
                    raw_bytes = resp_content response;
                    content_type =
                      (case content_type_header response of None \<Rightarrow> [] | Some h \<Rightarrow> h)
                in if is_pdf content_type url raw_bytes
                   then (case extract_content_from_pdf w now raw_bytes url s1 of
                           (Inl e, s2) \<Rightarrow> (Inl e, s2)
                         | (Inr text, s2) \<Rightarrow> (Inr (text, []), s2))
                   else if is_page_html page_raw content_type \<and> \<not> force_raw
                   then (Inr (extract_content_from_html w page_raw, []), s1)
                   else (Inr (page_raw,
                              ''Content type '' @ content_type
                              @ '' cannot be simplified to markdown, but here is the raw content:''
                              @ [CHR 0x0A]), s1)))"

subsection \<open>fetch\<close>

text \<open>The window of \<open>fetch\<close> (the lines after \<open>fetch_url\<close> returns, up to the final format).\<close>

definition no_more_content :: string where
  "no_more_content = ''<error>No more content available.</error>''"

definition truncation_notice :: "int \<Rightarrow> string" where
  "truncation_notice next_start =
     [CHR 0x0A, CHR 0x0A]
     @ ''<error>Content truncated. Call the fetch tool with a start_index of ''
     @ str_int next_start @ '' to get more content.</error>''"

definition paginate :: "string \<Rightarrow> int \<Rightarrow> int \<Rightarrow> string" where
  "paginate content start_index max_length =
     (let original_length = int (length content)
      in if start_index \<ge> original_length then no_more_content
         else
           (let truncated_content = slice content start_index (start_index + max_length)
            in if truncated_content = [] then no_more_content
               else
                 (let actual_content_length = int (length truncated_content);
                      remaining_content = original_length - (start_index + actual_content_length)
                  in if actual_content_length = max_length \<and> remaining_content > 0
                     then truncated_content @ truncation_notice (start_index + actual_content_length)
                     else truncated_content)))"

definition user_agent_autonomous :: "server \<Rightarrow> string" where
  "user_agent_autonomous s =
     (case custom_user_agent s of
        None \<Rightarrow> DEFAULT_USER_AGENT_AUTONOMOUS
      | Some ua \<Rightarrow> if ua = [] then DEFAULT_USER_AGENT_AUTONOMOUS else ua)"

definition fetch ::
  "world \<Rightarrow> real \<Rightarrow> string \<Rightarrow> int \<Rightarrow> int \<Rightarrow> bool \<Rightarrow> server \<Rightarrow> (error + string) \<times> server" where
  "fetch w now url max_length start_index raw s =
     (if max_length \<le> 0 \<or> max_length \<ge> 1000000
      then (Inl (ValueError ''max_length must be between 1 and 999999''), s)
      else if start_index < 0
      then (Inl (ValueError ''start_index must be >= 0''), s)
      else if url = []
      then (Inl (ValueError ''URL is required''), s)
      else
        (case (if \<not> ignore_robots_txt s
               then check_may_autonomously_fetch_url w url (user_agent_autonomous s) (proxy_url s) s
               else (Inr (), s)) of
           (Inl e, s1) \<Rightarrow> (Inl e, s1)
         | (Inr u, s1) \<Rightarrow>
             (case fetch_url w now url (user_agent_autonomous s) raw (proxy_url s) s1 of
                (Inl e, s2) \<Rightarrow> (Inl e, s2)
              | (Inr (content, prefix), s2) \<Rightarrow>
                  (Inr (prefix @ ''Contents of '' @ url @ '':'' @ [CHR 0x0A]
                        @ paginate content start_index max_length), s2))))"

subsection \<open>configure_server, serve and main\<close>

text \<open>
  An argument with a default is an \<open>option\<close>: \<open>None\<close> when the caller leaves it out.
  \<open>serve\<close> configures the server and then runs the transport, which serves the
  \<open>fetch\<close> calls; the model keeps the configured server.
\<close>

definition configure_server ::
  "string option \<Rightarrow> bool option \<Rightarrow> string option \<Rightarrow> server \<Rightarrow> server" where
  "configure_server custom_user_agent_arg ignore_robots_txt_arg proxy_url_arg s =
     s\<lparr>custom_user_agent := custom_user_agent_arg,
       ignore_robots_txt := (case ignore_robots_txt_arg of None \<Rightarrow> True | Some b \<Rightarrow> b),
       proxy_url := proxy_url_arg\<rparr>"

definition serve ::
  "string option \<Rightarrow> bool option \<Rightarrow> string option \<Rightarrow> int option \<Rightarrow> string option
     \<Rightarrow> server \<Rightarrow> server" where
  "serve custom_user_agent_arg ignore_robots_txt_arg proxy_url_arg port transport s =
     configure_server custom_user_agent_arg
       (Some (case ignore_robots_txt_arg of None \<Rightarrow> True | Some b \<Rightarrow> b)) proxy_url_arg s"

text \<open>
  The command line of \<open>main\<close>: one constructor per \<open>add_argument\<close>. \<open>parse_args\<close> gives
  each option the default argparse gives it: \<open>None\<close> for the valued options,
  \<open>False\<close> for the \<open>store_true\<close> flag, \<open>"http"\<close> for the transport.
\<close>

datatype cli_option =
  OptUserAgent string
| OptIgnoreRobotsTxt
| OptProxyUrl string
| OptPort int
| OptTransport string

record namespace =
  ns_user_agent :: "string option"
  ns_ignore_robots_txt :: bool
  ns_proxy_url :: "string option"
  ns_port :: "int option"
  ns_transport :: string

fun set_option :: "namespace \<Rightarrow> cli_option \<Rightarrow> namespace" where
  "set_option ns (OptUserAgent v) = ns\<lparr>ns_user_agent := Some v\<rparr>"
| "set_option ns OptIgnoreRobotsTxt = ns\<lparr>ns_ignore_robots_txt := True\<rparr>"
| "set_option ns (OptProxyUrl v) = ns\<lparr>ns_proxy_url := Some v\<rparr>"
| "set_option ns (OptPort v) = ns\<lparr>ns_port := Some v\<rparr>"
| "set_option ns (OptTransport v) = ns\<lparr>ns_transport := v\<rparr>"

definition parse_args :: "cli_option list \<Rightarrow> namespace" where
  "parse_args argv =
     foldl set_option
       \<lparr>ns_user_agent = None, ns_ignore_robots_txt = False, ns_proxy_url = None,
        ns_port = None, ns_transport = ''http''\<rparr> argv"

definition main :: "cli_option list \<Rightarrow> server \<Rightarrow> server" where
  "main argv s =
     (let args = parse_args argv
      in serve (ns_user_agent args) (Some (ns_ignore_robots_txt args)) (ns_proxy_url args)
           (ns_port args) (Some (ns_transport args)) s)"


section \<open>Example inputs\<close>

text \<open>
  A site that serves the two characters \<open>ab\<close> as \<open>text/plain\<close> and whose robots rules
  allow everything, and what \<open>fetch\<close> returns for it with \<open>max_length = 1\<close>; the same site serving a PDF, and serving an HTML page that
  readabilipy finds no content in; a site whose robots.txt, a comment line and
  \<open>Disallow: /\<close>, is served with a given status and forbids every fetch; a converted text of 10,000,001
  characters; and a full cache of twenty live entries, the oldest first.
\<close>

definition plain_world :: world where
  "plain_world =
     \<lparr>urlparse = (\<lambda>u. \<lparr>scheme = ''http'', netloc = ''h'', path = ''/a'', params = [],
                          query = [], fragment = []\<rparr>),
      urlunparse = (\<lambda>p. scheme p @ ''://'' @ netloc p @ path p),
      http_get = (\<lambda>proxy u ua.
         Inr \<lparr>status_code = 200, resp_text = ''ab'', resp_content = ''ab'',
              content_type_header = Some ''text/plain''\<rparr>),
      can_fetch = (\<lambda>body u ua. True),
      md_convert = (\<lambda>d. Inr ''pdf text''),
      readable_content = (\<lambda>h. None),
      markdownify = (\<lambda>h. h)\<rparr>"

definition plain_world_output :: string where
  "plain_world_output =
     ''Content type text/plain cannot be simplified to markdown, but here is the raw content:''
     @ [CHR 0x0A] @ ''Contents of http://h/a:'' @ [CHR 0x0A] @ ''a''
     @ [CHR 0x0A, CHR 0x0A]
     @ ''<error>Content truncated. Call the fetch tool with a start_index of 1 to get more content.</error>''"

definition pdf_world :: world where
  "pdf_world =
     plain_world\<lparr>http_get := (\<lambda>proxy u ua.
        Inr \<lparr>status_code = 200, resp_text = ''%PDF-1.4'', resp_content = ''%PDF-1.4'',
             content_type_header = Some ''application/pdf''\<rparr>)\<rparr>"

definition html_world :: world where
  "html_world =
     plain_world\<lparr>http_get := (\<lambda>proxy u ua.
        Inr \<lparr>status_code = 200, resp_text = ''<html></html>'', resp_content = ''<html></html>'',
             content_type_header = Some ''text/html''\<rparr>)\<rparr>"

definition robots_body :: string where
  "robots_body = ''#x'' @ [CHR 0x0A] @ ''Disallow: /''"

definition robots_response :: "int \<Rightarrow> response" where
  "robots_response status =
     \<lparr>status_code = status, resp_text = robots_body, resp_content = robots_body,
      content_type_header = Some ''text/plain''\<rparr>"

definition robots_world :: "int \<Rightarrow> world" where
  "robots_world status =
     plain_world\<lparr>http_get := (\<lambda>proxy u ua. Inr (robots_response status)),
                 can_fetch := (\<lambda>body u ua. body \<noteq> ''Disallow: /'')\<rparr>"

definition pdf_response :: response where
  "pdf_response =
     \<lparr>status_code = 200, resp_text = ''%PDF-1.4'', resp_content = ''%PDF-1.4'',
      content_type_header = Some ''application/pdf''\<rparr>"

definition long_text :: string where
  "long_text = replicate 10000001 CHR ''a''"

definition demo_cache :: ttl_cache where
  "demo_cache =
     map (\<lambda>k. \<lparr>entry_key = k, entry_value = ''t'', entry_expires = 600\<rparr>)
       [''a'', ''b'', ''c'', ''d'', ''e'', ''f'', ''g'', ''h'', ''i'', ''j'',
        ''k'', ''l'', ''m'', ''n'', ''o'', ''p'', ''q'', ''r'', ''s'', ''t'']"


section \<open>The window of fetch\<close>

lemma slice_empty_past_end:
  "int (length xs) \<le> a \<Longrightarrow> slice xs a b = []"
  by (simp add: slice_def clamp_index_def Let_def)

text \<open>
  C5. When \<open>start_index\<close> is at or past the end of the content, and also whenever
  the selected substring is empty, the content of the result is exactly the marker
  \<open><error>No more content available.</error>\<close>.
\<close>

theorem paginate_no_more_content:
  "start_index \<ge> int (length content)
     \<or> slice content start_index (start_index + max_length) = []
   \<Longrightarrow> paginate content start_index max_length
         = ''<error>No more content available.</error>''"
  by (auto simp add: paginate_def no_more_content_def Let_def)

theorem paginate_no_more_content_witness:
  "(5 \<ge> int (length ''abc'') \<or> slice ''abc'' 5 (5 + 10) = [])
   \<and> paginate ''abc'' 5 10 = ''<error>No more content available.</error>''"
  using paginate_no_more_content [of "''abc''" 5 10] by simp

lemma paginate_full_window:
  assumes "0 < max_length"
    and "int (length (slice content start_index (start_index + max_length))) = max_length"
    and "int (length content) - (start_index + max_length) > 0"
  shows "paginate content start_index max_length
         = slice content start_index (start_index + max_length)
           @ truncation_notice (start_index + max_length)"
proof -
  let ?t = "slice content start_index (start_index + max_length)"
  from assms(1,2) have ne: "?t \<noteq> []" by auto
  have lt: "\<not> start_index \<ge> int (length content)"
  proof
    assume "start_index \<ge> int (length content)"
    then have "?t = []" by (rule slice_empty_past_end)
    with ne show False by simp
  qed
  show ?thesis
    using ne lt assms(2,3) by (simp add: paginate_def Let_def)
qed

lemma fetch_format:
  assumes "fetch w now url max_length start_index raw s = (Inr out, s')"
  shows "\<exists>content prefix s1.
           fetch_url w now url (user_agent_autonomous s) raw (proxy_url s) s1
             = (Inr (content, prefix), s')
           \<and> out = prefix @ ''Contents of '' @ url @ '':'' @ [CHR 0x0A]
                   @ paginate content start_index max_length"
  using assms
  by (auto simp add: fetch_def split: if_splits prod.splits sum.splits)

lemma fetch_plain_world:
  "fetch plain_world 0 ''http://h/a'' 1 0 False initial_server
   = (Inr (''Content type text/plain cannot be simplified to markdown, but here is the raw content:''
           @ [CHR 0x0A] @ ''Contents of http://h/a:'' @ [CHR 0x0A] @ ''a''
           @ [CHR 0x0A, CHR 0x0A]
           @ ''<error>Content truncated. Call the fetch tool with a start_index of 1 to get more content.</error>''),
      initial_server\<lparr>trace := [PageGet ''http://h/a'' DEFAULT_USER_AGENT_AUTONOMOUS]\<rparr>)"
  by (simp add: initial_server_def fetch_def plain_world_def user_agent_autonomous_def
      log_event_def startswith_def fetch_url_def is_pdf_def is_page_html_def lower_def
      lower_char_def endswith_def Let_def paginate_def slice_def clamp_index_def
      truncation_notice_def str_int_def str_nat.simps)

text \<open>
  C6. When the window is full (the substring taken has \<open>max_length\<close> characters)
  and content remains beyond it, the notice naming the next start index,
  \<open>start_index + max_length\<close>, is appended to the substring. And whenever \<open>fetch\<close>
  returns a string, that string is the advisory prefix \<open>fetch_url\<close> gave, then
  \<open>Contents of <url>:\<close>, a newline, and the content or marker of the window.
\<close>

theorem fetch_continuation_and_format:
  "(0 < max_length
      \<and> int (length (slice content start_index (start_index + max_length))) = max_length
      \<and> int (length content) - (start_index + max_length) > 0 \<longrightarrow>
    paginate content start_index max_length
      = slice content start_index (start_index + max_length)
        @ [CHR 0x0A, CHR 0x0A]
        @ ''<error>Content truncated. Call the fetch tool with a start_index of ''
        @ str_int (start_index + max_length) @ '' to get more content.</error>'')
   \<and> (fetch w now url max_length start_index raw s = (Inr out, s') \<longrightarrow>
        (\<exists>page prefix s1.
           fetch_url w now url (user_agent_autonomous s) raw (proxy_url s) s1
             = (Inr (page, prefix), s')
           \<and> out = prefix @ ''Contents of '' @ url @ '':'' @ [CHR 0x0A]
                   @ paginate page start_index max_length))"
  using paginate_full_window [of max_length content start_index]
    fetch_format [of w now url max_length start_index raw s out s']
  by (simp add: truncation_notice_def)

theorem fetch_continuation_and_format_witness:
  "(0::int) < 1
   \<and> int (length (slice ''ab'' 0 (0 + 1))) = 1
   \<and> int (length ''ab'') - (0 + 1) > 0
   \<and> paginate ''ab'' 0 1
       = ''a'' @ [CHR 0x0A, CHR 0x0A]
         @ ''<error>Content truncated. Call the fetch tool with a start_index of 1 to get more content.</error>''
   \<and> (\<exists>out s'. fetch plain_world 0 ''http://h/a'' 1 0 False initial_server = (Inr out, s')
        \<and> (\<exists>page prefix s1.
              fetch_url plain_world 0 ''http://h/a'' (user_agent_autonomous initial_server) False
                (proxy_url initial_server) s1 = (Inr (page, prefix), s')
              \<and> out = prefix @ ''Contents of '' @ ''http://h/a'' @ '':'' @ [CHR 0x0A]
                      @ paginate page 0 1))"
proof -
  have w: "int (length (slice ''ab'' 0 (0 + 1))) = 1" "slice ''ab'' 0 (0 + 1) = ''a''"
    by (simp_all add: slice_def clamp_index_def)
  have n: "str_int (0 + 1) = ''1''"
    by (simp add: str_int_def str_nat.simps)
  obtain out s' where f: "fetch plain_world 0 ''http://h/a'' 1 0 False initial_server = (Inr out, s')"
    using fetch_plain_world by blast
  note t = fetch_continuation_and_format
             [of 1 "''ab''" 0 plain_world 0 "''http://h/a''" False initial_server out s']
  from t w n have p: "paginate ''ab'' 0 1
       = ''a'' @ [CHR 0x0A, CHR 0x0A]
         @ ''<error>Content truncated. Call the fetch tool with a start_index of 1 to get more content.</error>''"
    by simp
  from t f have e: "\<exists>page prefix s1.
              fetch_url plain_world 0 ''http://h/a'' (user_agent_autonomous initial_server) False
                (proxy_url initial_server) s1 = (Inr (page, prefix), s')
              \<and> out = prefix @ ''Contents of '' @ ''http://h/a'' @ '':'' @ [CHR 0x0A]
                      @ paginate page 0 1"
    by simp
  from w p f e show ?thesis by auto
qed

lemma slice_length_le:
  assumes "0 \<le> m"
  shows "int (length (slice xs a (a + m))) \<le> m"
proof -
  let ?n = "length xs"
  have "int (clamp_index ?n (a + m)) - int (clamp_index ?n a) \<le> m"
    using assms by (cases "a < 0"; cases "a + m < 0"; simp add: clamp_index_def; arith)
  moreover have "int (length (slice xs a (a + m)))
                 \<le> int (clamp_index ?n (a + m) - clamp_index ?n a)"
    by (simp add: slice_def Let_def)
  ultimately show ?thesis using assms by linarith
qed

lemma paginate_cases:
  "paginate page start_index max_length = ''<error>No more content available.</error>''
   \<or> paginate page start_index max_length = slice page start_index (start_index + max_length)
   \<or> paginate page start_index max_length
       = slice page start_index (start_index + max_length)
         @ [CHR 0x0A, CHR 0x0A]
         @ ''<error>Content truncated. Call the fetch tool with a start_index of ''
         @ str_int (start_index + max_length) @ '' to get more content.</error>''"
  by (auto simp add: paginate_def no_more_content_def truncation_notice_def Let_def)

lemma fetch_valid_request:
  assumes "fetch w now url max_length start_index raw s = (Inr out, s')"
  shows "0 < max_length \<and> max_length < 1000000 \<and> 0 \<le> start_index \<and> url \<noteq> []"
  using assms by (auto simp add: fetch_def split: if_splits)

lemma fetch_url_plain_world:
  "fetch_url plain_world now ''http://h/a'' ua False proxy s1
   = (Inr (''ab'',
           ''Content type text/plain cannot be simplified to markdown, but here is the raw content:''
           @ [CHR 0x0A]),
      log_event (PageGet ''http://h/a'' ua) s1)"
  by (simp add: fetch_url_def plain_world_def is_pdf_def is_page_html_def lower_def
      lower_char_def startswith_def endswith_def Let_def)


lemma fetch_plain_world_output:
  "fetch plain_world 0 ''http://h/a'' 1 0 False initial_server
   = (Inr plain_world_output,
      initial_server\<lparr>trace := [PageGet ''http://h/a'' DEFAULT_USER_AGENT_AUTONOMOUS]\<rparr>)"
  using fetch_plain_world by (simp add: plain_world_output_def)

lemma fetch_output_length:
  assumes "out = prefix @ ''Contents of '' @ url @ '':'' @ [CHR 0x0A] @ body"
  shows "int (length out) = int (length prefix) + int (length url) + int (length body) + 14"
  using assms by simp

text \<open>
  C9. The bound \<open>max_length\<close> is on the window only. Whenever \<open>fetch\<close> returns a
  string, \<open>max_length\<close> is between 1 and 999999 and the substring taken from the
  page has at most \<open>max_length\<close> characters; the returned string is the prefix,
  the \<open>Contents of <url>:\<close> line (14 characters and the URL) and then the marker,
  the substring, or the substring followed by the notice, all of them added
  outside the window. So when the window is full and content remains, the
  returned string is longer than \<open>max_length\<close> by more than the prefix and the
  header line. For the two-character page served as \<open>text/plain\<close> and
  \<open>max_length = 1\<close> the returned string is the one written out in
  \<open>plain_world_output\<close>, which has more than one character.
\<close>

theorem fetch_result_longer_than_max_length:
  "(fetch w now url max_length start_index raw s = (Inr out, s') \<longrightarrow>
      0 < max_length \<and> max_length < 1000000 \<and> 0 \<le> start_index
      \<and> (\<exists>page prefix s1.
            fetch_url w now url (user_agent_autonomous s) raw (proxy_url s) s1
              = (Inr (page, prefix), s')
            \<and> out = prefix @ ''Contents of '' @ url @ '':'' @ [CHR 0x0A]
                    @ paginate page start_index max_length
            \<and> int (length (slice page start_index (start_index + max_length))) \<le> max_length
            \<and> (paginate page start_index max_length = ''<error>No more content available.</error>''
               \<or> paginate page start_index max_length
                   = slice page start_index (start_index + max_length)
               \<or> paginate page start_index max_length
                   = slice page start_index (start_index + max_length)
                     @ [CHR 0x0A, CHR 0x0A]
                     @ ''<error>Content truncated. Call the fetch tool with a start_index of ''
                     @ str_int (start_index + max_length) @ '' to get more content.</error>'')
            \<and> int (length out)
                = int (length prefix) + int (length url) + 14
                  + int (length (paginate page start_index max_length))
            \<and> (int (length (slice page start_index (start_index + max_length))) = max_length
                 \<and> int (length page) > start_index + max_length \<longrightarrow>
               int (length out) > max_length + int (length prefix) + int (length url) + 14)))
   \<and> fetch plain_world 0 ''http://h/a'' 1 0 False initial_server
       = (Inr plain_world_output,
          initial_server\<lparr>trace := [PageGet ''http://h/a'' DEFAULT_USER_AGENT_AUTONOMOUS]\<rparr>)
   \<and> int (length plain_world_output) > 1"
proof -
  have u: "0 < max_length \<and> max_length < 1000000 \<and> 0 \<le> start_index
      \<and> (\<exists>page prefix s1.
            fetch_url w now url (user_agent_autonomous s) raw (proxy_url s) s1
              = (Inr (page, prefix), s')
            \<and> out = prefix @ ''Contents of '' @ url @ '':'' @ [CHR 0x0A]
                    @ paginate page start_index max_length
            \<and> int (length (slice page start_index (start_index + max_length))) \<le> max_length
            \<and> (paginate page start_index max_length = ''<error>No more content available.</error>''
               \<or> paginate page start_index max_length
                   = slice page start_index (start_index + max_length)
               \<or> paginate page start_index max_length
                   = slice page start_index (start_index + max_length)
                     @ [CHR 0x0A, CHR 0x0A]
                     @ ''<error>Content truncated. Call the fetch tool with a start_index of ''
                     @ str_int (start_index + max_length) @ '' to get more content.</error>'')
            \<and> int (length out)
                = int (length prefix) + int (length url) + 14
                  + int (length (paginate page start_index max_length))
            \<and> (int (length (slice page start_index (start_index + max_length))) = max_length
                 \<and> int (length page) > start_index + max_length \<longrightarrow>
               int (length out) > max_length + int (length prefix) + int (length url) + 14))"
    if f: "fetch w now url max_length start_index raw s = (Inr out, s')"
  proof -
    from fetch_valid_request [OF f]
    have v: "0 < max_length" "max_length < 1000000" "0 \<le> start_index" by simp_all
    from fetch_format [OF f] obtain page prefix s1
      where fu: "fetch_url w now url (user_agent_autonomous s) raw (proxy_url s) s1
                 = (Inr (page, prefix), s')"
        and o: "out = prefix @ ''Contents of '' @ url @ '':'' @ [CHR 0x0A]
                      @ paginate page start_index max_length"
      by blast
    have b: "int (length (slice page start_index (start_index + max_length))) \<le> max_length"
      using v(1) by (simp add: slice_length_le)
    note c = paginate_cases [of page start_index max_length]
    have l: "int (length out)
             = int (length prefix) + int (length url) + 14
               + int (length (paginate page start_index max_length))"
      using fetch_output_length [OF o] by simp
    have g: "int (length out) > max_length + int (length prefix) + int (length url) + 14"
      if full: "int (length (slice page start_index (start_index + max_length))) = max_length"
        and more: "int (length page) > start_index + max_length"
    proof -
      have "paginate page start_index max_length
            = slice page start_index (start_index + max_length)
              @ truncation_notice (start_index + max_length)"
        using v(1) full more by (intro paginate_full_window) simp_all
      then have "int (length (paginate page start_index max_length))
                 = max_length + int (length (truncation_notice (start_index + max_length)))"
        using full by simp
      moreover have "0 < length (truncation_notice (start_index + max_length))"
        by (simp add: truncation_notice_def)
      ultimately show ?thesis using l by linarith
    qed
    from v fu o b c l g show ?thesis by blast
  qed
  have "int (length plain_world_output) > 1"
    by (simp add: plain_world_output_def)
  with u fetch_plain_world_output show ?thesis by blast
qed

theorem fetch_result_longer_than_max_length_witness:
  "fetch plain_world 0 ''http://h/a'' 1 0 False initial_server
     = (Inr plain_world_output,
        initial_server\<lparr>trace := [PageGet ''http://h/a'' DEFAULT_USER_AGENT_AUTONOMOUS]\<rparr>)
   \<and> int (length (slice ''ab'' 0 (0 + 1))) = 1
   \<and> int (length ''ab'') > 0 + 1
   \<and> (\<exists>prefix s1.
         fetch_url plain_world 0 ''http://h/a'' (user_agent_autonomous initial_server) False
           (proxy_url initial_server) s1
           = (Inr (''ab'', prefix),
              initial_server\<lparr>trace := [PageGet ''http://h/a'' DEFAULT_USER_AGENT_AUTONOMOUS]\<rparr>)
         \<and> int (length plain_world_output)
             > 1 + int (length prefix) + int (length ''http://h/a'') + 14)
   \<and> int (length plain_world_output) > 1"
proof -
  let ?S = "initial_server\<lparr>trace := [PageGet ''http://h/a'' DEFAULT_USER_AGENT_AUTONOMOUS]\<rparr>"
  note t = fetch_result_longer_than_max_length [where w = plain_world and now = 0
      and url = "''http://h/a''" and max_length = 1 and start_index = 0 and raw = False
      and s = initial_server and out = plain_world_output and s' = ?S]
  have f: "fetch plain_world 0 ''http://h/a'' 1 0 False initial_server
           = (Inr plain_world_output, ?S)"
    using t by blast
  from t f obtain page prefix s1
    where fu: "fetch_url plain_world 0 ''http://h/a'' (user_agent_autonomous initial_server)
                 False (proxy_url initial_server) s1 = (Inr (page, prefix), ?S)"
      and g: "int (length (slice page 0 (0 + 1))) = 1 \<and> int (length page) > 0 + 1 \<longrightarrow>
              int (length plain_world_output)
                > 1 + int (length prefix) + int (length ''http://h/a'') + 14"
    by blast
  from fu have p: "page = ''ab''"
    by (simp add: fetch_url_plain_world)
  have w: "int (length (slice ''ab'' 0 (0 + 1))) = 1" "int (length ''ab'') > 0 + 1"
    by (simp_all add: slice_def clamp_index_def)
  from g p w have "int (length plain_world_output)
                > 1 + int (length prefix) + int (length ''http://h/a'') + 14"
    by blast
  moreover have "int (length plain_world_output) > 1"
    using t by blast
  ultimately show ?thesis using f fu p w by blast
qed



section \<open>Validation\<close>

text \<open>
  C7. A call with \<open>max_length \<le> 0\<close> or \<open>max_length \<ge> 1000000\<close>, with a negative
  \<open>start_index\<close>, or with an empty \<open>url\<close> fails with the \<open>ValueError\<close> of the first
  check it breaks, each check with a message of its own, and the server is
  unchanged: nothing was logged, so no request was made.
\<close>

theorem fetch_validation_errors:
  "(max_length \<le> 0 \<or> max_length \<ge> 1000000 \<longrightarrow>
      fetch w now url max_length start_index raw s
        = (Inl (ValueError ''max_length must be between 1 and 999999''), s))
   \<and> (0 < max_length \<and> max_length < 1000000 \<and> start_index < 0 \<longrightarrow>
      fetch w now url max_length start_index raw s
        = (Inl (ValueError ''start_index must be >= 0''), s))
   \<and> (0 < max_length \<and> max_length < 1000000 \<and> 0 \<le> start_index \<and> url = [] \<longrightarrow>
      fetch w now url max_length start_index raw s
        = (Inl (ValueError ''URL is required''), s))
   \<and> (max_length \<le> 0 \<or> max_length \<ge> 1000000 \<or> start_index < 0 \<or> url = [] \<longrightarrow>
      (\<exists>msg. fetch w now url max_length start_index raw s = (Inl (ValueError msg), s)
             \<and> msg \<in> {''max_length must be between 1 and 999999'',
                       ''start_index must be >= 0'', ''URL is required''})
      \<and> trace (snd (fetch w now url max_length start_index raw s)) = trace s)"
  by (simp add: fetch_def)

theorem fetch_validation_errors_witness:
  "fetch plain_world 0 ''http://h/a'' 0 0 False initial_server
     = (Inl (ValueError ''max_length must be between 1 and 999999''), initial_server)
   \<and> fetch plain_world 0 ''http://h/a'' 1000000 0 False initial_server
     = (Inl (ValueError ''max_length must be between 1 and 999999''), initial_server)
   \<and> fetch plain_world 0 ''http://h/a'' 5000 (- 1) False initial_server
     = (Inl (ValueError ''start_index must be >= 0''), initial_server)
   \<and> fetch plain_world 0 [] 5000 0 False initial_server
     = (Inl (ValueError ''URL is required''), initial_server)
   \<and> trace (snd (fetch plain_world 0 [] 5000 0 False initial_server)) = trace initial_server"
  using fetch_validation_errors [where max_length = 0 and w = plain_world and now = 0
      and url = "''http://h/a''" and start_index = 0 and raw = False and s = initial_server]
    fetch_validation_errors [where max_length = 1000000 and w = plain_world and now = 0
      and url = "''http://h/a''" and start_index = 0 and raw = False and s = initial_server]
    fetch_validation_errors [where max_length = 5000 and w = plain_world and now = 0
      and url = "''http://h/a''" and start_index = "- 1" and raw = False and s = initial_server]
    fetch_validation_errors [where max_length = 5000 and w = plain_world and now = 0
      and url = "[]" and start_index = 0 and raw = False and s = initial_server]
  by simp


section \<open>PDF extraction and its cache\<close>

lemma find_append_miss:
  "find P xs = None \<Longrightarrow> find P (xs @ ys) = find P ys"
  by (induction xs) (auto split: if_splits)

lemma find_key_absent:
  "find (\<lambda>e. entry_key e = k) (drop n (filter (\<lambda>e. entry_key e \<noteq> k) c)) = None"
  by (auto simp add: find_None_iff dest!: in_set_dropD)

lemma cache_lookup_store:
  "cache_lookup (cache_store c now k v) now k = Some v"
  by (simp add: cache_lookup_def cache_store_def Let_def find_append_miss find_key_absent ttl_def)

lemma pdf_cache_log_event:
  "pdf_cache (log_event e s) = pdf_cache s"
  by (simp add: log_event_def)

lemma extract_content_from_pdf_hit:
  assumes "cache_lookup (pdf_cache s) now url = Some cached"
  shows "extract_content_from_pdf w now data url s = (Inr cached, s)"
  using assms by (simp add: extract_content_from_pdf_def)

lemma extract_content_from_pdf_miss:
  assumes "cache_lookup (pdf_cache s) now url = None" and "md_convert w data = Inr t"
  shows "extract_content_from_pdf w now data url s
         = (Inr t, s\<lparr>trace := trace s @ [Convert data],
                      pdf_cache := cache_store (pdf_cache s) now url (take 10000000 t)\<rparr>)"
  using assms by (simp add: extract_content_from_pdf_def log_event_def)

text \<open>A later call for the same URL, before the entry expires, finds what the miss stored.\<close>

lemma extract_content_from_pdf_miss_then_hit:
  assumes "cache_lookup (pdf_cache s) now url = None" and "md_convert w data = Inr t"
    and "now \<le> now'" and "now' < now + ttl"
  shows "extract_content_from_pdf w' now' data' url
           (snd (extract_content_from_pdf w now data url s))
         = (Inr (take 10000000 t), snd (extract_content_from_pdf w now data url s))"
proof -
  have "cache_lookup (cache_store (pdf_cache s) now url (take 10000000 t)) now' url
        = Some (take 10000000 t)"
    using assms(4)
    by (simp add: cache_lookup_def cache_store_def Let_def find_append_miss find_key_absent)
  then show ?thesis
    using assms(1,2)
    by (simp add: extract_content_from_pdf_miss extract_content_from_pdf_hit)
qed

text \<open>Every stored value is a text cut to 10,000,000 characters.\<close>

lemma cache_store_values:
  assumes "\<forall>e \<in> set c. length (entry_value e) \<le> n" and "length v \<le> n"
  shows "\<forall>e \<in> set (cache_store c now k v). length (entry_value e) \<le> n"
  using assms by (auto simp add: cache_store_def Let_def dest!: in_set_dropD)

lemma extract_content_from_pdf_cache_values:
  assumes "\<forall>e \<in> set (pdf_cache s). length (entry_value e) \<le> 10000000"
  shows "\<forall>e \<in> set (pdf_cache (snd (extract_content_from_pdf w now data url s))).
           length (entry_value e) \<le> 10000000"
proof (cases "cache_lookup (pdf_cache s) now url")
  case (Some cached)
  then show ?thesis using assms by (simp add: extract_content_from_pdf_def)
next
  case None
  show ?thesis
  proof (cases "md_convert w data")
    case (Inl e)
    then show ?thesis using None assms
      by (simp add: extract_content_from_pdf_def log_event_def)
  next
    case (Inr t)
    have "\<forall>e \<in> set (cache_store (pdf_cache s) now url (take 10000000 t)).
            length (entry_value e) \<le> 10000000"
      by (rule cache_store_values [OF assms]) simp
    then show ?thesis using None Inr
      by (simp add: extract_content_from_pdf_def log_event_def)
  qed
qed

text \<open>
  C1. On a miss the text is cut to 10,000,000 characters and the cut text is stored
  under the URL; the claim has the operation return that cut text. The source
  returns \<open>text\<close>, the text before the cut: for a conversion of 10,000,001
  characters and an empty cache, the call returns all 10,000,001 characters, and
  the one entry the cache then holds has the first 10,000,000.
\<close>

theorem extract_content_from_pdf_miss_returns_uncapped:
  "fst (extract_content_from_pdf (plain_world\<lparr>md_convert := (\<lambda>d. Inr long_text)\<rparr>) 0
          ''%PDF-'' ''http://h/a.pdf'' initial_server) = Inr long_text
   \<and> length long_text = 10000001
   \<and> map entry_value
         (pdf_cache (snd (extract_content_from_pdf
            (plain_world\<lparr>md_convert := (\<lambda>d. Inr long_text)\<rparr>) 0
            ''%PDF-'' ''http://h/a.pdf'' initial_server)))
       = [replicate 10000000 CHR ''a'']"
  by (simp add: extract_content_from_pdf_def log_event_def cache_lookup_def cache_store_def
      initial_server_def long_text_def maxsize_def)

text \<open>
  C2. Two extractions for one URL, the second one second after the first: the
  second is served from the cache and converts nothing (the log is unchanged),
  but for a conversion of 10,000,001 characters the first call returned all of
  them and the second returns the 10,000,000 that were stored, so the two results
  differ.
\<close>

theorem extract_content_from_pdf_repeat_differs:
  "(let w = plain_world\<lparr>md_convert := (\<lambda>d. Inr long_text)\<rparr>;
        (r1, s1) = extract_content_from_pdf w 0 ''%PDF-'' ''http://h/a.pdf'' initial_server;
        (r2, s2) = extract_content_from_pdf w 1 ''%PDF-'' ''http://h/a.pdf'' s1
    in r1 = Inr (replicate 10000001 CHR ''a'')
       \<and> r2 = Inr (replicate 10000000 CHR ''a'')
       \<and> r1 \<noteq> r2
       \<and> trace s2 = trace s1)"
  by (simp add: extract_content_from_pdf_def log_event_def cache_lookup_def cache_store_def
      initial_server_def long_text_def maxsize_def ttl_def)

subsection \<open>The bound of the cache\<close>

lemma cache_store_length:
  assumes "length c \<le> maxsize"
  shows "length (cache_store c now k v) \<le> maxsize"
proof -
  have "length (filter (\<lambda>e. entry_key e \<noteq> k) c) \<le> length c" by simp
  then show ?thesis using assms
    by (simp add: cache_store_def Let_def maxsize_def)
qed

lemma cache_store_full:
  assumes "length c = maxsize" and "k \<notin> entry_key ` set c"
  shows "cache_store c now k v
         = tl c @ [\<lparr>entry_key = k, entry_value = v, entry_expires = now + ttl\<rparr>]"
proof -
  have "filter (\<lambda>e. entry_key e \<noteq> k) c = c"
    using assms(2) by (auto simp add: filter_id_conv)
  then show ?thesis using assms(1)
    by (simp add: cache_store_def Let_def drop_Suc)
qed

lemma cache_lookup_absent:
  assumes "k \<notin> entry_key ` set c"
  shows "cache_lookup c now k = None"
proof -
  have "find (\<lambda>e. entry_key e = k) c = None"
    using assms by (auto simp add: find_None_iff)
  then show ?thesis by (simp add: cache_lookup_def)
qed

lemma check_keeps_cache:
  "pdf_cache (snd (check_may_autonomously_fetch_url w url ua proxy s)) = pdf_cache s"
  by (simp add: check_may_autonomously_fetch_url_def log_event_def Let_def split: sum.splits)

lemma extract_cache_length:
  "length (pdf_cache s) \<le> maxsize \<Longrightarrow>
   length (pdf_cache (snd (extract_content_from_pdf w now data url s))) \<le> maxsize"
  by (simp add: extract_content_from_pdf_def log_event_def cache_store_length Let_def
      split: option.splits sum.splits)

lemma snd_lift_result:
  "snd (case p of (Inl e, s2) \<Rightarrow> (Inl e, s2) | (Inr t, s2) \<Rightarrow> (Inr (f t), s2)) = snd p"
  by (auto split: prod.splits sum.splits)

lemma fetch_url_cache_length:
  assumes "length (pdf_cache s) \<le> maxsize"
  shows "length (pdf_cache (snd (fetch_url w now url ua force_raw proxy s))) \<le> maxsize"
proof -
  have b: "length (pdf_cache (log_event (PageGet url ua) s)) \<le> maxsize"
    using assms by (simp add: pdf_cache_log_event)
  show ?thesis
    using assms extract_cache_length [OF b]
    by (simp add: fetch_url_def Let_def snd_lift_result pdf_cache_log_event split: sum.splits)
qed

lemma fetch_cache_length:
  assumes "length (pdf_cache s) \<le> maxsize"
  shows "length (pdf_cache (snd (fetch w now url max_length start_index raw s))) \<le> maxsize"
proof -
  let ?chk = "if \<not> ignore_robots_txt s
              then check_may_autonomously_fetch_url w url (user_agent_autonomous s) (proxy_url s) s
              else (Inr (), s)"
  have b: "length (pdf_cache (snd ?chk)) \<le> maxsize"
    using assms by (simp add: check_keeps_cache)
  obtain r s1 where chk: "?chk = (r, s1)" by (cases ?chk)
  with b have s1: "length (pdf_cache s1) \<le> maxsize" by simp
  note d = fetch_url_cache_length [OF s1, of w now url "user_agent_autonomous s" raw "proxy_url s"]
  obtain r2 s2
    where fu: "fetch_url w now url (user_agent_autonomous s) raw (proxy_url s) s1 = (r2, s2)"
    by (cases "fetch_url w now url (user_agent_autonomous s) raw (proxy_url s) s1")
  with d have s2: "length (pdf_cache s2) \<le> maxsize" by simp
  show ?thesis
    using assms s1 s2 chk fu
    by (simp add: fetch_def split: sum.splits prod.splits)
qed

lemma extract_full_cache:
  assumes "length (pdf_cache s) = maxsize" and "url \<notin> entry_key ` set (pdf_cache s)"
    and "md_convert w data = Inr t"
  shows "pdf_cache (snd (extract_content_from_pdf w now data url s))
         = tl (pdf_cache s)
           @ [\<lparr>entry_key = url, entry_value = take 10000000 t, entry_expires = now + ttl\<rparr>]"
  using assms
  by (simp add: extract_content_from_pdf_miss cache_lookup_absent cache_store_full)

text \<open>
  C4. The cache starts empty with room for 20 entries, and a \<open>fetch\<close> that finds at
  most 20 entries leaves at most 20. A store into a full cache under a key it does
  not hold drops exactly the first entry of the list, the one inserted longest
  ago, and appends the new one; so does the extraction of a 21st URL. A cache hit
  returns the stored text and leaves the server, the cache's order included, as it
  was: reading an entry does not protect it from eviction.
\<close>

theorem pdf_cache_capacity:
  "maxsize = 20
   \<and> pdf_cache initial_server = []
   \<and> (length (pdf_cache s) \<le> maxsize \<longrightarrow>
        length (pdf_cache (snd (fetch w now url max_length start_index raw s))) \<le> maxsize)
   \<and> (length c \<le> maxsize \<longrightarrow> length (cache_store c now k v) \<le> maxsize)
   \<and> (length c = maxsize \<and> k \<notin> entry_key ` set c \<longrightarrow>
        cache_store c now k v
          = tl c @ [\<lparr>entry_key = k, entry_value = v, entry_expires = now + ttl\<rparr>])
   \<and> (length (pdf_cache s) = maxsize \<and> k \<notin> entry_key ` set (pdf_cache s)
        \<and> md_convert w data = Inr t \<longrightarrow>
        pdf_cache (snd (extract_content_from_pdf w now data k s))
          = tl (pdf_cache s)
            @ [\<lparr>entry_key = k, entry_value = take 10000000 t, entry_expires = now + ttl\<rparr>])
   \<and> (cache_lookup (pdf_cache s) now url = Some cached \<longrightarrow>
        extract_content_from_pdf w now data url s = (Inr cached, s))"
  using fetch_cache_length [of s w now url max_length start_index raw]
    cache_store_length [of c now k v] cache_store_full [of c k now v]
    extract_full_cache [of s k w data t now]
    extract_content_from_pdf_hit [of s now url cached w data]
  by (simp add: maxsize_def initial_server_def)

theorem pdf_cache_capacity_witness:
  "length (pdf_cache (initial_server\<lparr>pdf_cache := demo_cache\<rparr>)) \<le> maxsize
   \<and> length (pdf_cache (snd (fetch plain_world 5 ''a'' 1 0 False
                                 (initial_server\<lparr>pdf_cache := demo_cache\<rparr>)))) \<le> maxsize
   \<and> length demo_cache = maxsize
   \<and> ''new'' \<notin> entry_key ` set demo_cache
   \<and> md_convert plain_world ''d'' = Inr ''pdf text''
   \<and> length (cache_store demo_cache 5 ''new'' ''x'') \<le> maxsize
   \<and> cache_store demo_cache 5 ''new'' ''x''
       = tl demo_cache @ [\<lparr>entry_key = ''new'', entry_value = ''x'', entry_expires = 5 + ttl\<rparr>]
   \<and> pdf_cache (snd (extract_content_from_pdf plain_world 5 ''d'' ''new''
                        (initial_server\<lparr>pdf_cache := demo_cache\<rparr>)))
       = tl demo_cache
         @ [\<lparr>entry_key = ''new'', entry_value = take 10000000 ''pdf text'',
             entry_expires = 5 + ttl\<rparr>]
   \<and> cache_lookup demo_cache 5 ''a'' = Some ''t''
   \<and> extract_content_from_pdf plain_world 5 ''d'' ''a'' (initial_server\<lparr>pdf_cache := demo_cache\<rparr>)
       = (Inr ''t'', initial_server\<lparr>pdf_cache := demo_cache\<rparr>)"
proof -
  have f: "length demo_cache = maxsize" "''new'' \<notin> entry_key ` set demo_cache"
    "cache_lookup demo_cache 5 ''a'' = Some ''t''"
    by (auto simp add: demo_cache_def maxsize_def cache_lookup_def)
  have m: "md_convert plain_world ''d'' = Inr ''pdf text''"
    by (simp add: plain_world_def)
  note t1 = pdf_cache_capacity [where s = "initial_server\<lparr>pdf_cache := demo_cache\<rparr>"
      and w = plain_world and now = 5 and url = "''a''" and max_length = 1 and start_index = 0
      and raw = False and c = demo_cache and k = "''new''" and v = "''x''" and data = "''d''"
      and t = "''pdf text''" and cached = "''t''"]
  from t1 f m show ?thesis by simp
qed


section \<open>The robots.txt check\<close>

text \<open>
  C3. The claim has a server started without the flag skip the robots.txt check.
  \<open>serve\<close> called without the argument, and the module before any configuration,
  do ignore robots.txt; but \<open>main\<close> always passes the value argparse gives the
  \<open>store_true\<close> flag, which is \<open>False\<close> when the flag is absent, so a server
  started from the command line without \<open>--ignore-robots-txt\<close> has
  \<open>_ignore_robots_txt = False\<close>, and its \<open>fetch\<close> requests and parses robots.txt
  before it requests the page.
\<close>

theorem main_without_flag_checks_robots:
  "ignore_robots_txt (main [] initial_server) = False
   \<and> ignore_robots_txt (serve None None None None None initial_server) = True
   \<and> ignore_robots_txt initial_server = True
   \<and> trace (snd (fetch plain_world 0 ''http://h/a'' 5000 0 False (main [] initial_server)))
       = [RobotsGet ''http://h/robots.txt'' DEFAULT_USER_AGENT_AUTONOMOUS,
          RobotsParse ''ab'',
          PageGet ''http://h/a'' DEFAULT_USER_AGENT_AUTONOMOUS]"
  by (simp add: main_def parse_args_def serve_def configure_server_def initial_server_def
      fetch_def check_may_autonomously_fetch_url_def get_robots_txt_url_def plain_world_def
      user_agent_autonomous_def log_event_def process_robot_txt_def splitlines_def strip_def
      startswith_def is_linebreak_def is_space_def fetch_url_def is_pdf_def is_page_html_def
      lower_def lower_char_def endswith_def Let_def)

lemma robots_denied_message_embeds:
  "\<exists>a b c d e. robots_denied_message robot_txt_url user_agent url robot_txt
      = a @ robot_txt_url @ b @ user_agent @ c @ url @ d @ robot_txt @ e"
  unfolding robots_denied_message_def
  by (metis append.assoc)


text \<open>
  C8. The check dispatches on the status of the robots.txt response. 401 and 403
  fail with the \<open>ValueError\<close> that says autonomous fetching is assumed not allowed;
  any other status from 400 to 499 succeeds, and the log shows the request only,
  no parse; for every other status the body, without its comment lines, is parsed,
  and the check fails exactly when \<open>can_fetch\<close> is false for the URL and the user
  agent, with a message that embeds the robots.txt URL, the user agent, the
  target URL and the body as received. (The source has one exception type,
  \<open>ValueError\<close>; the two permission failures are told apart by their messages.)
\<close>

theorem robots_check_dispatch:
  "(http_get w proxy (get_robots_txt_url w url) user_agent = Inr response
      \<and> (status_code response = 401 \<or> status_code response = 403) \<longrightarrow>
       check_may_autonomously_fetch_url w url user_agent proxy s
          = (Inl (ValueError
                    (''When fetching robots.txt ('' @ get_robots_txt_url w url
                     @ ''), received status '' @ str_int (status_code response)
                     @ '' so assuming that autonomous fetching is not allowed, the user can try manually fetching by using the fetch prompt'')),
             log_event (RobotsGet (get_robots_txt_url w url) user_agent) s))
    \<and> (http_get w proxy (get_robots_txt_url w url) user_agent = Inr response
        \<and> 400 \<le> status_code response \<and> status_code response < 500
        \<and> status_code response \<noteq> 401 \<and> status_code response \<noteq> 403 \<longrightarrow>
       check_may_autonomously_fetch_url w url user_agent proxy s
          = (Inr (), log_event (RobotsGet (get_robots_txt_url w url) user_agent) s))
    \<and> (http_get w proxy (get_robots_txt_url w url) user_agent = Inr response
        \<and> (status_code response < 400 \<or> 500 \<le> status_code response) \<longrightarrow>
       check_may_autonomously_fetch_url w url user_agent proxy s
          = (if can_fetch w (process_robot_txt (resp_text response)) url user_agent
             then Inr ()
             else Inl (ValueError (robots_denied_message (get_robots_txt_url w url)
                                     user_agent url (resp_text response))),
             log_event (RobotsParse (process_robot_txt (resp_text response)))
               (log_event (RobotsGet (get_robots_txt_url w url) user_agent) s)))
    \<and> (\<exists>a b c d e.
          robots_denied_message (get_robots_txt_url w url) user_agent url (resp_text response)
            = a @ get_robots_txt_url w url @ b @ user_agent @ c @ url @ d
              @ resp_text response @ e)"
  using robots_denied_message_embeds
  by (simp add: check_may_autonomously_fetch_url_def robots_status_message_def Let_def)


lemma robots_world_simps:
  "get_robots_txt_url (robots_world n) ''http://h/a'' = ''http://h/robots.txt''"
  "http_get (robots_world n) None ''http://h/robots.txt'' ''bot'' = Inr (robots_response n)"
  "status_code (robots_response n) = n"
  "resp_text (robots_response n) = robots_body"
  "process_robot_txt robots_body = ''Disallow: /''"
  "can_fetch (robots_world n) body u ua = (body \<noteq> ''Disallow: /'')"
  by (simp_all add: robots_world_def robots_response_def plain_world_def get_robots_txt_url_def
      process_robot_txt_def splitlines_def strip_def startswith_def is_linebreak_def
      is_space_def robots_body_def)

theorem robots_check_dispatch_witness:
  "http_get (robots_world 403) None (get_robots_txt_url (robots_world 403) ''http://h/a'') ''bot''
     = Inr (robots_response 403)
   \<and> status_code (robots_response 403) = 403
   \<and> check_may_autonomously_fetch_url (robots_world 403) ''http://h/a'' ''bot'' None initial_server
       = (Inl (ValueError
                 (''When fetching robots.txt (http://h/robots.txt), received status 403''
                  @ '' so assuming that autonomous fetching is not allowed, the user can try manually fetching by using the fetch prompt'')),
          log_event (RobotsGet ''http://h/robots.txt'' ''bot'') initial_server)
   \<and> http_get (robots_world 404) None (get_robots_txt_url (robots_world 404) ''http://h/a'') ''bot''
     = Inr (robots_response 404)
   \<and> status_code (robots_response 404) = 404
   \<and> check_may_autonomously_fetch_url (robots_world 404) ''http://h/a'' ''bot'' None initial_server
       = (Inr (), log_event (RobotsGet ''http://h/robots.txt'' ''bot'') initial_server)
   \<and> http_get (robots_world 200) None (get_robots_txt_url (robots_world 200) ''http://h/a'') ''bot''
     = Inr (robots_response 200)
   \<and> status_code (robots_response 200) = 200
   \<and> \<not> can_fetch (robots_world 200) (process_robot_txt robots_body) ''http://h/a'' ''bot''
   \<and> check_may_autonomously_fetch_url (robots_world 200) ''http://h/a'' ''bot'' None initial_server
       = (Inl (ValueError (robots_denied_message ''http://h/robots.txt'' ''bot'' ''http://h/a''
                             robots_body)),
          log_event (RobotsParse ''Disallow: /'')
            (log_event (RobotsGet ''http://h/robots.txt'' ''bot'') initial_server))"
proof -
  have n: "str_int 403 = ''403''"
    by (simp add: str_int_def str_nat.simps)
  have h: "http_get (robots_world k) None (get_robots_txt_url (robots_world k) ''http://h/a'')
             ''bot'' = Inr (robots_response k)" for k
    by (simp add: robots_world_simps)
  have "status_code (robots_response 403) = 401 \<or> status_code (robots_response 403) = 403"
    by (simp add: robots_world_simps)
  with h [of 403]
    robots_check_dispatch [where w = "robots_world 403" and proxy = None
      and url = "''http://h/a''" and user_agent = "''bot''" and response = "robots_response 403"
      and s = initial_server]
  have a: "check_may_autonomously_fetch_url (robots_world 403) ''http://h/a'' ''bot'' None
             initial_server
           = (Inl (ValueError
                    (''When fetching robots.txt (''
                     @ get_robots_txt_url (robots_world 403) ''http://h/a''
                     @ ''), received status '' @ str_int (status_code (robots_response 403))
                     @ '' so assuming that autonomous fetching is not allowed, the user can try manually fetching by using the fetch prompt'')),
             log_event (RobotsGet (get_robots_txt_url (robots_world 403) ''http://h/a'') ''bot'')
               initial_server)"
    by blast
  have "400 \<le> status_code (robots_response 404) \<and> status_code (robots_response 404) < 500
        \<and> status_code (robots_response 404) \<noteq> 401 \<and> status_code (robots_response 404) \<noteq> 403"
    by (simp add: robots_world_simps)
  with h [of 404]
    robots_check_dispatch [where w = "robots_world 404" and proxy = None
      and url = "''http://h/a''" and user_agent = "''bot''" and response = "robots_response 404"
      and s = initial_server]
  have b: "check_may_autonomously_fetch_url (robots_world 404) ''http://h/a'' ''bot'' None
             initial_server
           = (Inr (), log_event (RobotsGet (get_robots_txt_url (robots_world 404) ''http://h/a'')
                                   ''bot'') initial_server)"
    by blast
  have "status_code (robots_response 200) < 400 \<or> 500 \<le> status_code (robots_response 200)"
    by (simp add: robots_world_simps)
  with h [of 200]
    robots_check_dispatch [where w = "robots_world 200" and proxy = None
      and url = "''http://h/a''" and user_agent = "''bot''" and response = "robots_response 200"
      and s = initial_server]
  have c: "check_may_autonomously_fetch_url (robots_world 200) ''http://h/a'' ''bot'' None
             initial_server
           = (if can_fetch (robots_world 200) (process_robot_txt (resp_text (robots_response 200)))
                   ''http://h/a'' ''bot''
              then Inr ()
              else Inl (ValueError (robots_denied_message
                          (get_robots_txt_url (robots_world 200) ''http://h/a'')
                          ''bot'' ''http://h/a'' (resp_text (robots_response 200)))),
              log_event (RobotsParse (process_robot_txt (resp_text (robots_response 200))))
                (log_event (RobotsGet (get_robots_txt_url (robots_world 200) ''http://h/a'')
                              ''bot'') initial_server))"
    by blast
  from a b c n show ?thesis by (simp add: robots_world_simps)
qed


section \<open>PDF detection comes before the raw flag\<close>

lemma fetch_url_pdf:
  assumes "http_get w proxy url user_agent = Inr response"
    and "status_code response < 400"
    and "is_pdf (case content_type_header response of None \<Rightarrow> [] | Some h \<Rightarrow> h) url
           (resp_content response)"
  shows "fetch_url w now url user_agent force_raw proxy s
         = (case extract_content_from_pdf w now (resp_content response) url
                   (log_event (PageGet url user_agent) s) of
              (Inl e, s2) \<Rightarrow> (Inl e, s2)
            | (Inr t, s2) \<Rightarrow> (Inr (t, []), s2))"
  using assms by (simp add: fetch_url_def Let_def)

lemma fetch_url_raw_only_html:
  assumes "fetch_url w now url user_agent True proxy s
           \<noteq> fetch_url w now url user_agent False proxy s"
  shows "\<exists>r. http_get w proxy url user_agent = Inr r
           \<and> \<not> is_pdf (case content_type_header r of None \<Rightarrow> [] | Some h \<Rightarrow> h) url
                   (resp_content r)
           \<and> is_page_html (resp_text r)
                (case content_type_header r of None \<Rightarrow> [] | Some h \<Rightarrow> h)"
  using assms
  by (auto simp add: fetch_url_def Let_def split: sum.splits if_splits)

lemma fetch_pdf_raw:
  assumes "http_get w (proxy_url s) url (user_agent_autonomous s) = Inr response"
    and "status_code response < 400"
    and "is_pdf (case content_type_header response of None \<Rightarrow> [] | Some h \<Rightarrow> h) url
           (resp_content response)"
  shows "fetch w now url max_length start_index True s
         = fetch w now url max_length start_index False s"
proof -
  have eq: "fetch_url w now url (user_agent_autonomous s) True (proxy_url s)
            = fetch_url w now url (user_agent_autonomous s) False (proxy_url s)"
    by (rule ext) (simp add: fetch_url_pdf [OF assms])
  show ?thesis
    unfolding fetch_def eq by (rule refl)
qed


text \<open>
  C10. When the response is detected as a PDF, \<open>fetch_url\<close> with \<open>force_raw\<close> set
  returns what \<open>extract_content_from_pdf\<close> returns (a cache hit or a conversion),
  with the empty prefix, and so the same as without the flag; \<open>fetch\<close> with \<open>raw\<close>
  set likewise. The flag can change the result of \<open>fetch_url\<close> only for a response
  that is not a PDF and is detected as HTML.
\<close>

theorem fetch_url_pdf_before_raw:
  "(http_get w proxy url user_agent = Inr response
      \<and> status_code response < 400
      \<and> is_pdf (case content_type_header response of None \<Rightarrow> [] | Some h \<Rightarrow> h) url
           (resp_content response) \<longrightarrow>
    fetch_url w now url user_agent True proxy s
      = (case extract_content_from_pdf w now (resp_content response) url
                (log_event (PageGet url user_agent) s) of
           (Inl e, s2) \<Rightarrow> (Inl e, s2)
         | (Inr t, s2) \<Rightarrow> (Inr (t, []), s2))
    \<and> fetch_url w now url user_agent True proxy s
        = fetch_url w now url user_agent False proxy s)
   \<and> (http_get w (proxy_url s) url (user_agent_autonomous s) = Inr response
      \<and> status_code response < 400
      \<and> is_pdf (case content_type_header response of None \<Rightarrow> [] | Some h \<Rightarrow> h) url
           (resp_content response) \<longrightarrow>
      fetch w now url max_length start_index True s
        = fetch w now url max_length start_index False s)
   \<and> (fetch_url w now url user_agent True proxy s
         \<noteq> fetch_url w now url user_agent False proxy s \<longrightarrow>
       (\<exists>r. http_get w proxy url user_agent = Inr r
           \<and> \<not> is_pdf (case content_type_header r of None \<Rightarrow> [] | Some h \<Rightarrow> h) url
                   (resp_content r)
           \<and> is_page_html (resp_text r)
                (case content_type_header r of None \<Rightarrow> [] | Some h \<Rightarrow> h)))"
  using fetch_url_pdf [of w proxy url user_agent response now True s]
    fetch_url_pdf [of w proxy url user_agent response now False s]
    fetch_pdf_raw [of w s url response now max_length start_index]
    fetch_url_raw_only_html [of w now url user_agent proxy s]
  by auto


lemma pdf_world_facts:
  "http_get pdf_world proxy ''http://h/a'' ua = Inr pdf_response"
  "status_code pdf_response < 400"
  "is_pdf (case content_type_header pdf_response of None \<Rightarrow> [] | Some h \<Rightarrow> h) ''http://h/a''
     (resp_content pdf_response)"
  by (simp_all add: pdf_world_def pdf_response_def plain_world_def is_pdf_def lower_def
      lower_char_def startswith_def endswith_def)

lemma pdf_world_extract:
  "extract_content_from_pdf pdf_world 0 (resp_content pdf_response) ''http://h/a''
     (log_event (PageGet ''http://h/a'' DEFAULT_USER_AGENT_AUTONOMOUS) initial_server)
   = (Inr ''pdf text'',
      initial_server
        \<lparr>trace := [PageGet ''http://h/a'' DEFAULT_USER_AGENT_AUTONOMOUS, Convert ''%PDF-1.4''],
          pdf_cache := [\<lparr>entry_key = ''http://h/a'', entry_value = ''pdf text'',
                         entry_expires = 600\<rparr>]\<rparr>)"
  by (simp add: extract_content_from_pdf_def cache_lookup_def cache_store_def log_event_def
      initial_server_def pdf_world_def plain_world_def pdf_response_def maxsize_def ttl_def)

lemma html_world_differs:
  "fetch_url html_world 0 ''http://h/a'' DEFAULT_USER_AGENT_AUTONOMOUS True None initial_server
   \<noteq> fetch_url html_world 0 ''http://h/a'' DEFAULT_USER_AGENT_AUTONOMOUS False None
       initial_server"
  by (simp add: fetch_url_def html_world_def plain_world_def is_pdf_def is_page_html_def
      lower_def lower_char_def startswith_def endswith_def extract_content_from_html_def
      log_event_def Let_def)

theorem fetch_url_pdf_before_raw_witness:
  "http_get pdf_world None ''http://h/a'' DEFAULT_USER_AGENT_AUTONOMOUS = Inr pdf_response
   \<and> http_get pdf_world (proxy_url initial_server) ''http://h/a''
        (user_agent_autonomous initial_server) = Inr pdf_response
   \<and> status_code pdf_response < 400
   \<and> is_pdf (case content_type_header pdf_response of None \<Rightarrow> [] | Some h \<Rightarrow> h) ''http://h/a''
        (resp_content pdf_response)
   \<and> fetch_url pdf_world 0 ''http://h/a'' DEFAULT_USER_AGENT_AUTONOMOUS True None initial_server
       = (Inr (''pdf text'', []),
          initial_server
            \<lparr>trace := [PageGet ''http://h/a'' DEFAULT_USER_AGENT_AUTONOMOUS,
                        Convert ''%PDF-1.4''],
              pdf_cache := [\<lparr>entry_key = ''http://h/a'', entry_value = ''pdf text'',
                             entry_expires = 600\<rparr>]\<rparr>)
   \<and> fetch_url pdf_world 0 ''http://h/a'' DEFAULT_USER_AGENT_AUTONOMOUS True None initial_server
       = fetch_url pdf_world 0 ''http://h/a'' DEFAULT_USER_AGENT_AUTONOMOUS False None
           initial_server
   \<and> fetch pdf_world 0 ''http://h/a'' 1 0 True initial_server
       = fetch pdf_world 0 ''http://h/a'' 1 0 False initial_server
   \<and> fetch_url html_world 0 ''http://h/a'' DEFAULT_USER_AGENT_AUTONOMOUS True None initial_server
       \<noteq> fetch_url html_world 0 ''http://h/a'' DEFAULT_USER_AGENT_AUTONOMOUS False None
           initial_server
   \<and> (\<exists>r. http_get html_world None ''http://h/a'' DEFAULT_USER_AGENT_AUTONOMOUS = Inr r
           \<and> \<not> is_pdf (case content_type_header r of None \<Rightarrow> [] | Some h \<Rightarrow> h) ''http://h/a''
                   (resp_content r)
           \<and> is_page_html (resp_text r)
                (case content_type_header r of None \<Rightarrow> [] | Some h \<Rightarrow> h))"
proof -
  note p = fetch_url_pdf_before_raw [where w = pdf_world and proxy = None
      and url = "''http://h/a''" and user_agent = DEFAULT_USER_AGENT_AUTONOMOUS
      and response = pdf_response and now = 0 and s = initial_server and max_length = 1
      and start_index = 0]
  note h = fetch_url_pdf_before_raw [where w = html_world and proxy = None
      and url = "''http://h/a''" and user_agent = DEFAULT_USER_AGENT_AUTONOMOUS
      and response = pdf_response and now = 0 and s = initial_server and max_length = 1
      and start_index = 0]
  from p pdf_world_facts
  have a: "fetch_url pdf_world 0 ''http://h/a'' DEFAULT_USER_AGENT_AUTONOMOUS True None
             initial_server
      = (case extract_content_from_pdf pdf_world 0 (resp_content pdf_response) ''http://h/a''
                (log_event (PageGet ''http://h/a'' DEFAULT_USER_AGENT_AUTONOMOUS)
                   initial_server) of
           (Inl e, s2) \<Rightarrow> (Inl e, s2)
         | (Inr t, s2) \<Rightarrow> (Inr (t, []), s2))"
    and b: "fetch_url pdf_world 0 ''http://h/a'' DEFAULT_USER_AGENT_AUTONOMOUS True None
              initial_server
       = fetch_url pdf_world 0 ''http://h/a'' DEFAULT_USER_AGENT_AUTONOMOUS False None
           initial_server"
    and f: "fetch pdf_world 0 ''http://h/a'' 1 0 True initial_server
       = fetch pdf_world 0 ''http://h/a'' 1 0 False initial_server"
    by blast+
  from h html_world_differs
  have c: "\<exists>r. http_get html_world None ''http://h/a'' DEFAULT_USER_AGENT_AUTONOMOUS = Inr r
           \<and> \<not> is_pdf (case content_type_header r of None \<Rightarrow> [] | Some h \<Rightarrow> h) ''http://h/a''
                   (resp_content r)
           \<and> is_page_html (resp_text r)
                (case content_type_header r of None \<Rightarrow> [] | Some h \<Rightarrow> h)"
    by blast
  from a have a': "fetch_url pdf_world 0 ''http://h/a'' DEFAULT_USER_AGENT_AUTONOMOUS True None
                     initial_server
       = (Inr (''pdf text'', []),
          initial_server
            \<lparr>trace := [PageGet ''http://h/a'' DEFAULT_USER_AGENT_AUTONOMOUS,
                        Convert ''%PDF-1.4''],
              pdf_cache := [\<lparr>entry_key = ''http://h/a'', entry_value = ''pdf text'',
                             entry_expires = 600\<rparr>]\<rparr>)"
    by (simp add: pdf_world_extract)
  from a' b f c html_world_differs pdf_world_facts show ?thesis by blast
qed

end
